theory Spec2Isabelle
  imports Complex_Main
begin

section \<open>The hover tooltip action (\<open>hoverTooltip\<close>)\<close>

text \<open>
  The source is a Svelte action: \<open>hoverTooltip(element, options)\<close> declares four
  closure variables, registers the closures \<open>mouseOver\<close> and \<open>mouseLeave\<close> on the
  element and returns an object with the methods \<open>update\<close> and \<open>destroy\<close>.
  The embedding passes the state explicitly: the closure variables, the element and its
  bounding rectangle, the listeners registered on it, and the store of the
  \<open>HoverTooltip\<close> instances that were created, in creation order. JavaScript
  numbers are modelled as real numbers; the rounding of IEEE doubles is not modelled.
\<close>

subsection \<open>The environment: DOM rectangles, nodes, listeners\<close>

text \<open>
  \<open>DOMRect\<close> is the browser's rectangle, not code of the repository: an origin and a
  dimension, with the edges derived as the DOM geometry interface defines them. The
  source reads \<open>left\<close>, \<open>width\<close> and \<open>bottom\<close>.
\<close>

record DOMRect =
  rect_x :: real
  rect_y :: real
  width :: real
  height :: real

definition left :: "DOMRect \<Rightarrow> real" where
  "left r = min (rect_x r) (rect_x r + width r)"

definition top_edge :: "DOMRect \<Rightarrow> real" where
  "top_edge r = min (rect_y r) (rect_y r + height r)"

definition bottom :: "DOMRect \<Rightarrow> real" where
  "bottom r = max (rect_y r) (rect_y r + height r)"

datatype node = DocumentBody | OtherNode nat

text \<open>The two closures that the action registers as event listeners.\<close>

datatype handler = MouseOver | MouseLeave

text \<open>
  Of the element the action uses its identity and \<open>getBoundingClientRect()\<close>, whose
  current result is the field \<open>boundingClientRect\<close>.
\<close>

record HTMLElement =
  node_of :: node
  boundingClientRect :: DOMRect

text \<open>
  An event listener list holds pairs of an event type and a callback, in registration
  order. \<open>addEventListener\<close> appends a listener unless the same type and callback
  are registered already; \<open>removeEventListener\<close> removes it and does nothing (no
  error) when it is not registered.
\<close>

definition addEventListener ::
  "string \<Rightarrow> handler \<Rightarrow> (string \<times> handler) list \<Rightarrow> (string \<times> handler) list" where
  "addEventListener ty cb ls = (if (ty, cb) \<in> set ls then ls else ls @ [(ty, cb)])"

definition removeEventListener ::
  "string \<Rightarrow> handler \<Rightarrow> (string \<times> handler) list \<Rightarrow> (string \<times> handler) list" where
  "removeEventListener ty cb ls = filter (\<lambda>l. l \<noteq> (ty, cb)) ls"

subsection \<open>Options, props and the floating component\<close>

text \<open>
  \<open>HoverTooltipOptions\<close>: three optional fields, \<open>None\<close> for \<open>undefined\<close>. The type
  of a body component reference and of a props bag (\<open>Record<string, unknown>\<close>) are
  parameters.
\<close>

record ('c, 'p) HoverTooltipOptions =
  tooltipText :: "string option"
  tooltipBodyComponent :: "'c option"
  tooltipBodyProps :: "'p option"

text \<open>The props that \<open>mouseOver\<close> passes: the three options and the anchor.\<close>

record ('c, 'p) HoverTooltipProps = "('c, 'p) HoverTooltipOptions" +
  x :: real
  y :: real

text \<open>
  Modelled from the spec: the component \<open>HoverTooltip.svelte\<close> is not among the
  sources. The spec calls it the floating renderer: given content, anchor and mount
  parent it returns an opaque handle supporting \<open>destroy()\<close> and
  \<open>patch(partialContent)\<close>. An instance is the props it holds and the node it was
  mounted in; \<open>destroyCalls\<close> counts the calls of \<open>$destroy\<close> on it, so that an
  instance is live while the count is 0 and a double destroy is visible.
\<close>

record ('c, 'p) HoverTooltip =
  props :: "('c, 'p) HoverTooltipProps"
  target :: node
  destroyCalls :: nat

text \<open>
  Modelled from the spec: the constructor and the methods of the component, which is not
  among the sources. The store holds every instance created so far; the identity of an
  instance is its index. \<open>new_HoverTooltip\<close> is
  \<open>new HoverTooltip({props, target})\<close> (the renderer factory),
  \<open>component_destroy\<close> is \<open>$destroy()\<close> (\<open>destroy()\<close>) and
  \<open>component_set\<close> is \<open>$set({tooltipText})\<close> (\<open>patch\<close> of the text label).
\<close>

definition new_HoverTooltip ::
  "('c, 'p) HoverTooltipProps \<Rightarrow> node \<Rightarrow> ('c, 'p) HoverTooltip list
     \<Rightarrow> nat \<times> ('c, 'p) HoverTooltip list" where
  "new_HoverTooltip ps tg cs =
     (length cs, cs @ [\<lparr>props = ps, target = tg, destroyCalls = 0\<rparr>])"

definition component_destroy ::
  "nat \<Rightarrow> ('c, 'p) HoverTooltip list \<Rightarrow> ('c, 'p) HoverTooltip list" where
  "component_destroy i cs =
     (if i < length cs then cs[i := (cs ! i)\<lparr>destroyCalls := Suc (destroyCalls (cs ! i))\<rparr>]
      else cs)"

definition component_set ::
  "nat \<Rightarrow> string option \<Rightarrow> ('c, 'p) HoverTooltip list \<Rightarrow> ('c, 'p) HoverTooltip list" where
  "component_set i t cs =
     (if i < length cs then cs[i := (cs ! i)\<lparr>props := (props (cs ! i))\<lparr>tooltipText := t\<rparr>\<rparr>]
      else cs)"

subsection \<open>The action\<close>

text \<open>
  The state: the element, the entries of its listener list whose callback is one of the
  two closures, the four closure variables, and the store of instances.
\<close>

record ('c, 'p) world =
  element :: HTMLElement
  listeners :: "(string \<times> handler) list"
  tooltipComponent :: "nat option"
  curTooltipText :: "string option"
  curTooltipBodyComponent :: "'c option"
  curTooltipBodyProps :: "'p option"
  components :: "('c, 'p) HoverTooltip list"

definition mouseOver :: "('c, 'p) world \<Rightarrow> ('c, 'p) world" where
  "mouseOver s =
     (if tooltipComponent s \<noteq> None then s
      else
        let boundingRect = boundingClientRect (element s);
            (i, cs) = new_HoverTooltip
               \<lparr>tooltipText = curTooltipText s,
                tooltipBodyComponent = curTooltipBodyComponent s,
                tooltipBodyProps = curTooltipBodyProps s,
                x = left boundingRect + width boundingRect / 2,
                y = bottom boundingRect\<rparr>
               DocumentBody (components s)
        in s\<lparr>tooltipComponent := Some i, components := cs\<rparr>)"

definition mouseLeave :: "('c, 'p) world \<Rightarrow> ('c, 'p) world" where
  "mouseLeave s =
     (let cs = (case tooltipComponent s of
                  None \<Rightarrow> components s
                | Some i \<Rightarrow> component_destroy i (components s))
      in s\<lparr>components := cs, tooltipComponent := None\<rparr>)"

text \<open>
  The closures are created by the call, so no listener with one of them is registered
  before it, and no instance exists yet.
\<close>

definition hoverTooltip ::
  "HTMLElement \<Rightarrow> ('c, 'p) HoverTooltipOptions \<Rightarrow> ('c, 'p) world" where
  "hoverTooltip el opts =
     \<lparr>element = el,
      listeners = addEventListener ''mouseleave'' MouseLeave
                    (addEventListener ''mouseover'' MouseOver []),
      tooltipComponent = None,
      curTooltipText = tooltipText opts,
      curTooltipBodyComponent = tooltipBodyComponent opts,
      curTooltipBodyProps = tooltipBodyProps opts,
      components = []\<rparr>"

definition update :: "('c, 'p) HoverTooltipOptions \<Rightarrow> ('c, 'p) world \<Rightarrow> ('c, 'p) world" where
  "update opts s =
     (let s1 = s\<lparr>curTooltipText := tooltipText opts,
                 curTooltipBodyComponent := tooltipBodyComponent opts,
                 curTooltipBodyProps := tooltipBodyProps opts\<rparr>
      in case tooltipComponent s1 of
           None \<Rightarrow> s1
         | Some i \<Rightarrow> s1\<lparr>components := component_set i (tooltipText opts) (components s1)\<rparr>)"

definition destroy :: "('c, 'p) world \<Rightarrow> ('c, 'p) world" where
  "destroy s =
     (let s1 = mouseLeave s;
          s2 = s1\<lparr>listeners := removeEventListener ''mouseover'' MouseOver (listeners s1)\<rparr>
      in s2\<lparr>listeners := removeEventListener ''mouseleave'' MouseLeave (listeners s2)\<rparr>)"

subsection \<open>Events and runs\<close>

text \<open>
  Dispatching an event of a type on the element calls, in order, the callbacks
  registered for that type.
\<close>

definition invoke :: "handler \<Rightarrow> ('c, 'p) world \<Rightarrow> ('c, 'p) world" where
  "invoke h s = (case h of MouseOver \<Rightarrow> mouseOver s | MouseLeave \<Rightarrow> mouseLeave s)"

definition handlers_for :: "string \<Rightarrow> (string \<times> handler) list \<Rightarrow> handler list" where
  "handlers_for ty ls = map snd (filter (\<lambda>l. fst l = ty) ls)"

definition dispatchEvent :: "string \<Rightarrow> ('c, 'p) world \<Rightarrow> ('c, 'p) world" where
  "dispatchEvent ty s = fold invoke (handlers_for ty (listeners s)) s"

text \<open>
  What the page can do with an attached action: deliver an event to the element, call
  \<open>update\<close> or \<open>destroy\<close> of the returned object, or change the layout, which
  changes the bounding rectangle of the element.
\<close>

datatype ('c, 'p) action =
    Dispatch string
  | Update "('c, 'p) HoverTooltipOptions"
  | Destroy
  | Layout DOMRect

fun step :: "('c, 'p) action \<Rightarrow> ('c, 'p) world \<Rightarrow> ('c, 'p) world" where
  "step (Dispatch ty) s = dispatchEvent ty s"
| "step (Update opts) s = update opts s"
| "step Destroy s = destroy s"
| "step (Layout r) s = s\<lparr>element := (element s)\<lparr>boundingClientRect := r\<rparr>\<rparr>"

fun run :: "('c, 'p) world \<Rightarrow> ('c, 'p) action list \<Rightarrow> ('c, 'p) world" where
  "run s [] = s"
| "run s (a # as) = run (step a s) as"

text \<open>
  The events a run processes: an enter for each call of \<open>mouseOver\<close>, a leave for
  each call of \<open>mouseLeave\<close> by a dispatch, a detach for each call of \<open>destroy\<close>.
\<close>

datatype pevent = Enter | Leave | Detach

definition handler_event :: "handler \<Rightarrow> pevent" where
  "handler_event h = (case h of MouseOver \<Rightarrow> Enter | MouseLeave \<Rightarrow> Leave)"

fun observe :: "('c, 'p) action \<Rightarrow> ('c, 'p) world \<Rightarrow> pevent list" where
  "observe (Dispatch ty) s = map handler_event (handlers_for ty (listeners s))"
| "observe (Update opts) s = []"
| "observe Destroy s = [Detach]"
| "observe (Layout r) s = []"

fun processed :: "('c, 'p) world \<Rightarrow> ('c, 'p) action list \<Rightarrow> pevent list" where
  "processed s [] = []"
| "processed s (a # as) = observe a s @ processed (step a s) as"

text \<open>
  The hovering interval, in the words of the specification: the last processed event is
  an enter, with no leave or detach after it.
\<close>

definition hovering :: "pevent list \<Rightarrow> bool" where
  "hovering evs = (evs \<noteq> [] \<and> last evs = Enter)"

text \<open>The live instances: the indices of the instances that were never destroyed.\<close>

definition live_instances :: "('c, 'p) world \<Rightarrow> nat list" where
  "live_instances s =
     filter (\<lambda>j. destroyCalls (components s ! j) = 0) [0..<length (components s)]"

text \<open>The number of \<open>$destroy\<close> calls made so far.\<close>

definition destroyed_count :: "('c, 'p) world \<Rightarrow> nat" where
  "destroyed_count s = sum_list (map destroyCalls (components s))"

text \<open>\<open>N\<close> alternating pairs of an enter and a leave event.\<close>

definition enter_leave_pairs :: "nat \<Rightarrow> ('c, 'p) action list" where
  "enter_leave_pairs n = concat (replicate n [Dispatch ''mouseover'', Dispatch ''mouseleave''])"

text \<open>The options of the last \<open>update\<close> call of a run, or those of the attach.\<close>

fun latest_options ::
  "('c, 'p) HoverTooltipOptions \<Rightarrow> ('c, 'p) action list \<Rightarrow> ('c, 'p) HoverTooltipOptions" where
  "latest_options opts [] = opts"
| "latest_options opts (Update n # as) = latest_options n as"
| "latest_options opts (Dispatch ty # as) = latest_options opts as"
| "latest_options opts (Destroy # as) = latest_options opts as"
| "latest_options opts (Layout r # as) = latest_options opts as"

text \<open>The invariant of the reachable states.\<close>

definition listeners_ok :: "('c, 'p) world \<Rightarrow> bool" where
  "listeners_ok s =
     (listeners s = [] \<or>
      listeners s = [(''mouseover'', MouseOver), (''mouseleave'', MouseLeave)])"

definition consistent :: "('c, 'p) world \<Rightarrow> bool" where
  "consistent s =
     ((\<forall>j. (j < length (components s) \<and> destroyCalls (components s ! j) = 0)
             = (tooltipComponent s = Some j)) \<and>
      (\<forall>j < length (components s). destroyCalls (components s ! j) \<le> 1))"

text \<open>
  The state between two pairs of events: attached and hidden, with \<open>m\<close> instances
  created and each of them destroyed once.
\<close>

definition closed_at :: "nat \<Rightarrow> ('c, 'p) world \<Rightarrow> bool" where
  "closed_at m s =
     (listeners s = [(''mouseover'', MouseOver), (''mouseleave'', MouseLeave)] \<and>
      tooltipComponent s = None \<and>
      map destroyCalls (components s) = replicate m 1)"

text \<open>An element and options for the concrete runs below.\<close>

definition example_element :: HTMLElement where
  "example_element =
     \<lparr>node_of = OtherNode 7,
      boundingClientRect = \<lparr>rect_x = 100, rect_y = 50, width = 40, height = 20\<rparr>\<rparr>"

definition example_options :: "(string, (string \<times> int) list) HoverTooltipOptions" where
  "example_options =
     \<lparr>tooltipText = Some ''A'', tooltipBodyComponent = Some ''R1'',
      tooltipBodyProps = Some [(''x'', 1)]\<rparr>"

definition example_update :: "(string, (string \<times> int) list) HoverTooltipOptions" where
  "example_update =
     \<lparr>tooltipText = Some ''B'', tooltipBodyComponent = Some ''R2'',
      tooltipBodyProps = Some [(''x'', 2)]\<rparr>"

text \<open>The content that the next mount will show: the three closure variables.\<close>

definition cur_options :: "('c, 'p) world \<Rightarrow> ('c, 'p) HoverTooltipOptions" where
  "cur_options s =
     \<lparr>tooltipText = curTooltipText s,
      tooltipBodyComponent = curTooltipBodyComponent s,
      tooltipBodyProps = curTooltipBodyProps s\<rparr>"

text \<open>The rectangle of an element that is not in the document: all zero.\<close>

definition detached_element :: HTMLElement where
  "detached_element =
     \<lparr>node_of = OtherNode 7,
      boundingClientRect = \<lparr>rect_x = 0, rect_y = 0, width = 0, height = 0\<rparr>\<rparr>"

text \<open>A detached action has no handle.\<close>

definition detached_hidden :: "('c, 'p) world \<Rightarrow> bool" where
  "detached_hidden s = (listeners s \<noteq> [] \<or> tooltipComponent s = None)"

definition hovering_from :: "bool \<Rightarrow> pevent list \<Rightarrow> bool" where
  "hovering_from b evs = (if evs = [] then b else last evs = Enter)"

section \<open>Properties\<close>

subsection \<open>Events on reachable states\<close>

lemma mouseOver_unfold:
  "mouseOver s =
     (if tooltipComponent s \<noteq> None then s
      else s\<lparr>tooltipComponent := Some (length (components s)),
             components := components s @
               [\<lparr>props = \<lparr>tooltipText = curTooltipText s,
                           tooltipBodyComponent = curTooltipBodyComponent s,
                           tooltipBodyProps = curTooltipBodyProps s,
                           x = left (boundingClientRect (element s))
                                 + width (boundingClientRect (element s)) / 2,
                           y = bottom (boundingClientRect (element s))\<rparr>,
                 target = DocumentBody, destroyCalls = 0\<rparr>]\<rparr>)"
  by (simp add: mouseOver_def new_HoverTooltip_def Let_def)

lemma mouseLeave_unfold:
  "mouseLeave s =
     s\<lparr>components := (case tooltipComponent s of
                           None \<Rightarrow> components s
                         | Some i \<Rightarrow> component_destroy i (components s)),
       tooltipComponent := None\<rparr>"
  by (simp add: mouseLeave_def Let_def)

lemma update_unfold:
  "update n s =
     s\<lparr>curTooltipText := tooltipText n,
       curTooltipBodyComponent := tooltipBodyComponent n,
       curTooltipBodyProps := tooltipBodyProps n,
       components := (case tooltipComponent s of
                           None \<Rightarrow> components s
                         | Some i \<Rightarrow> component_set i (tooltipText n) (components s))\<rparr>"
  by (simp add: update_def Let_def split: option.splits)

lemma destroy_unfold:
  "destroy s =
     (mouseLeave s)\<lparr>listeners :=
        removeEventListener ''mouseleave'' MouseLeave
          (removeEventListener ''mouseover'' MouseOver (listeners s))\<rparr>"
  by (simp add: destroy_def Let_def mouseLeave_unfold)

lemma listeners_hoverTooltip:
  "listeners (hoverTooltip el opts) = [(''mouseover'', MouseOver), (''mouseleave'', MouseLeave)]"
  by (simp add: hoverTooltip_def addEventListener_def)

lemma listeners_mouseOver [simp]: "listeners (mouseOver s) = listeners s"
  by (simp add: mouseOver_unfold)

lemma listeners_mouseLeave [simp]: "listeners (mouseLeave s) = listeners s"
  by (simp add: mouseLeave_unfold)

lemma listeners_update [simp]: "listeners (update n s) = listeners s"
  by (simp add: update_unfold)

lemma listeners_ok_destroy:
  "listeners_ok s \<Longrightarrow> listeners (destroy s) = []"
  by (auto simp: listeners_ok_def destroy_unfold removeEventListener_def)

lemma dispatchEvent_cases:
  "listeners_ok s \<Longrightarrow>
   dispatchEvent ty s =
     (if listeners s = [] then s
      else if ty = ''mouseover'' then mouseOver s
      else if ty = ''mouseleave'' then mouseLeave s
      else s)"
  by (auto simp: listeners_ok_def dispatchEvent_def handlers_for_def invoke_def)

lemma observe_Dispatch_cases:
  "listeners_ok s \<Longrightarrow>
   observe (Dispatch ty) s =
     (if listeners s = [] then []
      else if ty = ''mouseover'' then [Enter]
      else if ty = ''mouseleave'' then [Leave]
      else [])"
  by (auto simp: listeners_ok_def handlers_for_def handler_event_def)

lemma listeners_step:
  "listeners_ok s \<Longrightarrow> listeners (step a s) = (if a = Destroy then [] else listeners s)"
  by (cases a) (simp_all add: dispatchEvent_cases listeners_ok_destroy)

lemma listeners_ok_step: "listeners_ok s \<Longrightarrow> listeners_ok (step a s)"
  by (simp add: listeners_ok_def [of "step a s"] listeners_step) (simp add: listeners_ok_def)

lemma run_append: "run s (as @ bs) = run (run s as) bs"
  by (induction as arbitrary: s) simp_all

lemma listeners_ok_run: "listeners_ok s \<Longrightarrow> listeners_ok (run s as)"
  by (induction as arbitrary: s) (simp_all add: listeners_ok_step)

lemma listeners_ok_hoverTooltip: "listeners_ok (hoverTooltip el opts)"
  by (simp add: listeners_ok_def listeners_hoverTooltip)

subsection \<open>The handle is the one live instance\<close>

lemma consistent_hoverTooltip: "consistent (hoverTooltip el opts)"
  by (simp add: consistent_def hoverTooltip_def)

lemma consistent_mouseOver: "consistent s \<Longrightarrow> consistent (mouseOver s)"
  by (auto simp: consistent_def mouseOver_unfold nth_append)

lemma consistent_mouseLeave: "consistent s \<Longrightarrow> consistent (mouseLeave s)"
  by (auto simp: consistent_def mouseLeave_unfold component_destroy_def nth_list_update
           split: option.splits)

lemma consistent_update: "consistent s \<Longrightarrow> consistent (update n s)"
  by (auto simp: consistent_def update_unfold component_set_def nth_list_update
           split: option.splits)

lemma consistent_destroy: "consistent s \<Longrightarrow> consistent (destroy s)"
  using consistent_mouseLeave [of s] by (simp add: consistent_def destroy_unfold)

lemma consistent_step: "listeners_ok s \<Longrightarrow> consistent s \<Longrightarrow> consistent (step a s)"
proof (cases a)
  case (Dispatch ty)
  assume "listeners_ok s" "consistent s"
  then show ?thesis
    using Dispatch by (simp add: dispatchEvent_cases consistent_mouseOver consistent_mouseLeave)
next
  case (Update n)
  assume "listeners_ok s" "consistent s"
  then show ?thesis using Update by (simp add: consistent_update)
next
  case Destroy
  assume "listeners_ok s" "consistent s"
  then show ?thesis using Destroy by (simp add: consistent_destroy)
next
  case (Layout r)
  assume "listeners_ok s" "consistent s"
  then show ?thesis using Layout by (simp add: consistent_def)
qed

lemma consistent_run: "listeners_ok s \<Longrightarrow> consistent s \<Longrightarrow> consistent (run s as)"
  by (induction as arbitrary: s) (simp_all add: consistent_step listeners_ok_step)

lemma reachable_ok:
  "listeners_ok (run (hoverTooltip el opts) as) \<and> consistent (run (hoverTooltip el opts) as)"
  by (simp add: listeners_ok_run consistent_run listeners_ok_hoverTooltip consistent_hoverTooltip)

lemma filter_index_eq: "i < n \<Longrightarrow> filter (\<lambda>j. i = j) [0..<n] = [i]"
proof (induction n)
  case 0
  then show ?case by simp
next
  case (Suc n)
  show ?case
  proof (cases "i = n")
    case True
    have "filter (\<lambda>j. n = j) [0..<n] = []"
      by (simp add: filter_empty_conv)
    with True show ?thesis by simp
  next
    case False
    with Suc show ?thesis by simp
  qed
qed

lemma live_instances_consistent:
  assumes "consistent s"
  shows "live_instances s = (case tooltipComponent s of None \<Rightarrow> [] | Some i \<Rightarrow> [i])"
proof -
  have eq: "live_instances s =
            filter (\<lambda>j. tooltipComponent s = Some j) [0..<length (components s)]"
    unfolding live_instances_def using assms
    by (intro filter_cong refl) (auto simp: consistent_def)
  show ?thesis
  proof (cases "tooltipComponent s")
    case None
    with eq show ?thesis by simp
  next
    case (Some i)
    with assms have "i < length (components s)"
      by (auto simp: consistent_def)
    with eq Some show ?thesis by (simp add: filter_index_eq)
  qed
qed

subsection \<open>The handle follows the processed events\<close>

lemma hovering_from_append:
  "hovering_from b (es @ fs) = hovering_from (hovering_from b es) fs"
  by (simp add: hovering_from_def)

lemma tooltipComponent_mouseOver: "tooltipComponent (mouseOver s) \<noteq> None"
  by (simp add: mouseOver_unfold)

lemma tooltipComponent_mouseLeave: "tooltipComponent (mouseLeave s) = None"
  by (simp add: mouseLeave_unfold)

lemma tooltipComponent_update: "tooltipComponent (update n s) = tooltipComponent s"
  by (simp add: update_unfold)

lemma tooltipComponent_destroy: "tooltipComponent (destroy s) = None"
  by (simp add: destroy_unfold tooltipComponent_mouseLeave)

lemma handle_step:
  assumes "listeners_ok s"
  shows "(tooltipComponent (step a s) \<noteq> None) =
         hovering_from (tooltipComponent s \<noteq> None) (observe a s)"
proof (cases a)
  case (Dispatch ty)
  show ?thesis
    unfolding Dispatch step.simps dispatchEvent_cases [OF assms] observe_Dispatch_cases [OF assms]
    using tooltipComponent_mouseOver [of s]
    by (simp add: hovering_from_def tooltipComponent_mouseLeave)
next
  case (Update n)
  then show ?thesis by (simp add: hovering_from_def tooltipComponent_update)
next
  case Destroy
  then show ?thesis by (simp add: hovering_from_def tooltipComponent_destroy)
next
  case (Layout r)
  then show ?thesis by (simp add: hovering_from_def)
qed

lemma handle_run:
  "listeners_ok s \<Longrightarrow>
   (tooltipComponent (run s as) \<noteq> None) =
     hovering_from (tooltipComponent s \<noteq> None) (processed s as)"
proof (induction as arbitrary: s)
  case Nil
  then show ?case by (simp add: hovering_from_def)
next
  case (Cons a as)
  have "(tooltipComponent (run (step a s) as) \<noteq> None) =
        hovering_from (tooltipComponent (step a s) \<noteq> None) (processed (step a s) as)"
    using Cons.prems by (intro Cons.IH) (rule listeners_ok_step)
  then show ?case
    using handle_step [OF Cons.prems, of a] by (simp add: hovering_from_append)
qed

text \<open>
  C1. After every sequence of actions on an attached action, the handle
  \<open>tooltipComponent\<close> is set exactly when the last processed enter, leave or detach
  event is an enter; the live instances are the one the handle names, or none, so there
  is never more than one.
\<close>

theorem live_handle_iff_hovering:
  "(tooltipComponent (run (hoverTooltip el opts) as) \<noteq> None)
     = hovering (processed (hoverTooltip el opts) as)
   \<and> live_instances (run (hoverTooltip el opts) as)
     = (case tooltipComponent (run (hoverTooltip el opts) as) of None \<Rightarrow> [] | Some i \<Rightarrow> [i])
   \<and> length (live_instances (run (hoverTooltip el opts) as)) \<le> 1"
proof -
  let ?s = "run (hoverTooltip el opts) as"
  have "tooltipComponent (hoverTooltip el opts) = None"
    by (simp add: hoverTooltip_def)
  then have h: "(tooltipComponent ?s \<noteq> None) = hovering (processed (hoverTooltip el opts) as)"
    using handle_run [OF listeners_ok_hoverTooltip, of el opts as]
    by (simp add: hovering_from_def hovering_def)
  have l: "live_instances ?s = (case tooltipComponent ?s of None \<Rightarrow> [] | Some i \<Rightarrow> [i])"
    using reachable_ok [of el opts as] by (simp add: live_instances_consistent)
  then have "length (live_instances ?s) \<le> 1"
    by (simp split: option.splits)
  with h l show ?thesis by simp
qed

theorem live_handle_iff_hovering_witness:
  "processed (hoverTooltip example_element example_options)
     [Dispatch ''mouseover'', Dispatch ''mouseleave'', Update example_update,
      Dispatch ''mouseover'', Dispatch ''mouseover'']
     = [Enter, Leave, Enter, Enter]
   \<and> tooltipComponent (run (hoverTooltip example_element example_options)
         [Dispatch ''mouseover'', Dispatch ''mouseleave'', Update example_update,
          Dispatch ''mouseover'', Dispatch ''mouseover'']) \<noteq> None
   \<and> processed (hoverTooltip example_element example_options)
         [Dispatch ''mouseover'', Destroy, Dispatch ''mouseover'']
       = [Enter, Detach]
   \<and> tooltipComponent (run (hoverTooltip example_element example_options)
         [Dispatch ''mouseover'', Destroy, Dispatch ''mouseover'']) = None"
proof -
  let ?i = "hoverTooltip example_element example_options"
  let ?as = "[Dispatch ''mouseover'', Dispatch ''mouseleave'', Update example_update,
              Dispatch ''mouseover'', Dispatch ''mouseover'']"
  let ?bs = "[Dispatch ''mouseover'', Destroy, Dispatch ''mouseover'']"
  have p: "processed ?i ?as = [Enter, Leave, Enter, Enter]"
    by (simp add: hoverTooltip_def addEventListener_def handlers_for_def handler_event_def
          dispatchEvent_def invoke_def mouseOver_unfold mouseLeave_unfold update_unfold)
  have q: "processed ?i ?bs = [Enter, Detach]"
    by (simp add: hoverTooltip_def addEventListener_def handlers_for_def handler_event_def
          dispatchEvent_def invoke_def mouseOver_unfold mouseLeave_unfold destroy_unfold
          removeEventListener_def)
  have "(tooltipComponent (run ?i ?as) \<noteq> None) = hovering (processed ?i ?as)"
    using live_handle_iff_hovering [of example_element example_options ?as] by blast
  then have a: "tooltipComponent (run ?i ?as) \<noteq> None"
    by (simp only: p) (simp add: hovering_def)
  have "(tooltipComponent (run ?i ?bs) \<noteq> None) = hovering (processed ?i ?bs)"
    using live_handle_iff_hovering [of example_element example_options ?bs] by blast
  then have b: "tooltipComponent (run ?i ?bs) = None"
    by (simp only: q) (simp add: hovering_def)
  show ?thesis
    using p q a b by blast
qed

subsection \<open>Pairs of enter and leave events\<close>

lemma enter_leave_pairs_Suc:
  "enter_leave_pairs (Suc n) =
     Dispatch ''mouseover'' # Dispatch ''mouseleave'' # enter_leave_pairs n"
  by (simp add: enter_leave_pairs_def)

lemma enter_leave_pairs_0: "enter_leave_pairs 0 = []"
  by (simp add: enter_leave_pairs_def)

lemma take_enter_leave_pairs:
  "k \<le> 2 * n \<Longrightarrow>
   take k (enter_leave_pairs n) =
     enter_leave_pairs (k div 2) @ (if even k then [] else [Dispatch ''mouseover''])"
proof (induction n arbitrary: k)
  case 0
  then show ?case by (simp add: enter_leave_pairs_0)
next
  case (Suc n)
  note IH = Suc.IH and bound = Suc.prems
  consider "k = 0" | "k = 1" | k2 where "k = Suc (Suc k2)"
    by (metis One_nat_def not0_implies_Suc)
  then show ?case
  proof cases
    case 1
    then show ?thesis by (simp add: enter_leave_pairs_0)
  next
    case 2
    then show ?thesis by (simp add: enter_leave_pairs_Suc enter_leave_pairs_0)
  next
    case 3
    with bound have "k2 \<le> 2 * n" by simp
    from IH [OF this] 3 show ?thesis by (simp add: enter_leave_pairs_Suc)
  qed
qed

lemma closed_at_hoverTooltip: "closed_at 0 (hoverTooltip el opts)"
  by (simp add: closed_at_def listeners_hoverTooltip) (simp add: hoverTooltip_def)

lemma dispatch_mouseover_attached:
  "listeners s = [(''mouseover'', MouseOver), (''mouseleave'', MouseLeave)] \<Longrightarrow>
   dispatchEvent ''mouseover'' s = mouseOver s"
  by (simp add: dispatchEvent_def handlers_for_def invoke_def)

lemma dispatch_mouseleave_attached:
  "listeners s = [(''mouseover'', MouseOver), (''mouseleave'', MouseLeave)] \<Longrightarrow>
   dispatchEvent ''mouseleave'' s = mouseLeave s"
  by (simp add: dispatchEvent_def handlers_for_def invoke_def)

lemma closed_at_pair:
  assumes "closed_at m s"
  shows "closed_at (Suc m) (run s [Dispatch ''mouseover'', Dispatch ''mouseleave''])"
proof -
  have l: "listeners s = [(''mouseover'', MouseOver), (''mouseleave'', MouseLeave)]"
    and h: "tooltipComponent s = None"
    and d: "map destroyCalls (components s) = replicate m 1"
    using assms by (simp_all add: closed_at_def)
  have len: "length (components s) = m"
    using d by (metis length_map length_replicate)
  have r: "run s [Dispatch ''mouseover'', Dispatch ''mouseleave''] = mouseLeave (mouseOver s)"
    using l by (simp add: dispatch_mouseover_attached dispatch_mouseleave_attached)
  have "map destroyCalls (components (mouseLeave (mouseOver s)))
          = map destroyCalls (components s) @ [1]"
    using h by (simp add: mouseOver_unfold mouseLeave_unfold component_destroy_def)
  then have "map destroyCalls (components (mouseLeave (mouseOver s))) = replicate (Suc m) 1"
    using d by (simp add: replicate_append_same)
  then show ?thesis
    unfolding r closed_at_def using l by (simp add: tooltipComponent_mouseLeave)
qed

lemma closed_at_pairs: "closed_at m s \<Longrightarrow> closed_at (m + n) (run s (enter_leave_pairs n))"
proof (induction n arbitrary: m s)
  case 0
  then show ?case by (simp add: enter_leave_pairs_0)
next
  case (Suc n)
  have "closed_at (Suc m) (run s [Dispatch ''mouseover'', Dispatch ''mouseleave''])"
    using Suc.prems by (rule closed_at_pair)
  then have "closed_at (Suc m + n)
      (run (run s [Dispatch ''mouseover'', Dispatch ''mouseleave'']) (enter_leave_pairs n))"
    by (rule Suc.IH)
  then show ?case by (simp add: enter_leave_pairs_Suc)
qed

lemma live_instances_map:
  "live_instances s =
     filter (\<lambda>j. map destroyCalls (components s) ! j = 0) [0..<length (components s)]"
  unfolding live_instances_def by (intro filter_cong refl) simp

text \<open>
  C2. In a run of \<open>n\<close> alternating enter and leave events on an attached action,
  after the first \<open>k\<close> events \<open>(k + 1) div 2\<close> instances were created and
  \<open>k div 2\<close> were destroyed, each exactly once; after an enter the one live instance
  is the newest, after a leave none is live. At the end (\<open>k = 2 * n\<close>) that is
  \<open>n\<close> created, \<open>n\<close> destroyed and none live.
\<close>

theorem enter_leave_pairs_no_leak:
  assumes "k \<le> 2 * n"
    and "s = run (hoverTooltip el opts) (take k (enter_leave_pairs n))"
  shows "length (components s) = (k + 1) div 2
       \<and> destroyed_count s = k div 2
       \<and> map destroyCalls (components s) = replicate (k div 2) 1 @ replicate (k mod 2) 0
       \<and> live_instances s = (if even k then [] else [k div 2])
       \<and> tooltipComponent s = (if even k then None else Some (k div 2))
       \<and> length (live_instances s) \<le> 1"
proof -
  let ?m = "k div 2"
  let ?c = "run (hoverTooltip el opts) (enter_leave_pairs ?m)"
  have c: "closed_at ?m ?c"
    using closed_at_pairs [OF closed_at_hoverTooltip, of ?m el opts] by simp
  then have l: "listeners ?c = [(''mouseover'', MouseOver), (''mouseleave'', MouseLeave)]"
    and h: "tooltipComponent ?c = None"
    and d: "map destroyCalls (components ?c) = replicate ?m 1"
    by (simp_all add: closed_at_def)
  have len: "length (components ?c) = ?m"
    using d by (metis length_map length_replicate)
  show ?thesis
  proof (cases "even k")
    case True
    then have s: "s = ?c"
      using assms by (simp add: take_enter_leave_pairs)
    have m: "k mod 2 = 0" "(k + 1) div 2 = ?m"
      using True by (simp_all add: even_iff_mod_2_eq_zero)
    have "live_instances s = []"
      unfolding live_instances_map s d len by (simp add: filter_empty_conv)
    then show ?thesis
      using True m d h len by (simp add: s destroyed_count_def sum_list_replicate)
  next
    case False
    then have s: "s = mouseOver ?c"
      using assms l
      by (simp add: take_enter_leave_pairs run_append dispatch_mouseover_attached)
    have m: "k mod 2 = 1" "(k + 1) div 2 = Suc ?m"
      using False by (simp_all add: odd_iff_mod_2_eq_one)
    have dc: "map destroyCalls (components s) = replicate ?m 1 @ [0]"
      using h d by (simp add: s mouseOver_unfold)
    have ls: "length (components s) = Suc ?m"
      using dc by (metis length_map length_append_singleton length_replicate)
    have "live_instances s = [?m]"
      unfolding live_instances_map dc ls
      by (simp add: nth_append filter_empty_conv)
    moreover have "tooltipComponent s = Some ?m"
      using h len by (simp add: s mouseOver_unfold)
    ultimately show ?thesis
      using False m dc ls by (simp add: destroyed_count_def sum_list_replicate)
  qed
qed

theorem enter_leave_pairs_no_leak_witness:
  "(3::nat) \<le> 2 * 2
   \<and> length (components (run (hoverTooltip example_element example_options)
                               (take 3 (enter_leave_pairs 2)))) = 2
   \<and> destroyed_count (run (hoverTooltip example_element example_options)
                            (take 3 (enter_leave_pairs 2))) = 1
   \<and> live_instances (run (hoverTooltip example_element example_options)
                            (take 3 (enter_leave_pairs 2))) = [1]
   \<and> tooltipComponent (run (hoverTooltip example_element example_options)
                              (take 3 (enter_leave_pairs 2))) = Some 1"
  using enter_leave_pairs_no_leak
          [of 3 2 "run (hoverTooltip example_element example_options)
                       (take 3 (enter_leave_pairs 2))" example_element example_options]
  by simp

subsection \<open>Mounts\<close>

lemma length_component_set [simp]: "length (component_set i t cs) = length cs"
  by (simp add: component_set_def)

lemma length_component_destroy [simp]: "length (component_destroy i cs) = length cs"
  by (simp add: component_destroy_def)

lemma length_components_mouseLeave: "length (components (mouseLeave s)) = length (components s)"
  by (simp add: mouseLeave_unfold split: option.splits)

lemma length_components_update: "length (components (update n s)) = length (components s)"
  by (simp add: update_unfold split: option.splits)

lemma length_components_destroy: "length (components (destroy s)) = length (components s)"
  by (simp add: destroy_unfold length_components_mouseLeave)

text \<open>A step that creates an instance is a call of \<open>mouseOver\<close> without a handle.\<close>

lemma mount_step:
  assumes "listeners_ok s"
    and "length (components s) < length (components (step a s))"
  shows "tooltipComponent s = None \<and> step a s = mouseOver s"
proof (cases a)
  case (Dispatch ty)
  have "dispatchEvent ty s = s \<or> dispatchEvent ty s = mouseOver s
          \<or> dispatchEvent ty s = mouseLeave s"
    by (simp add: dispatchEvent_cases [OF assms(1)])
  then have m: "dispatchEvent ty s = mouseOver s"
    using assms(2) Dispatch by (auto simp: length_components_mouseLeave)
  then have "tooltipComponent s = None"
    using assms(2) Dispatch by (cases "tooltipComponent s") (simp_all add: mouseOver_unfold)
  with m Dispatch show ?thesis by simp
next
  case (Update n)
  with assms(2) show ?thesis by (simp add: length_components_update)
next
  case Destroy
  with assms(2) show ?thesis by (simp add: length_components_destroy)
next
  case (Layout r)
  with assms(2) show ?thesis by simp
qed

lemma cur_options_step:
  "listeners_ok s \<Longrightarrow>
   cur_options (step a s) = (case a of Update n \<Rightarrow> n | _ \<Rightarrow> cur_options s)"
  by (cases a)
     (simp_all add: cur_options_def dispatchEvent_cases mouseOver_unfold mouseLeave_unfold
        update_unfold destroy_unfold)

lemma cur_options_run:
  "listeners_ok s \<Longrightarrow> cur_options (run s as) = latest_options (cur_options s) as"
proof (induction as arbitrary: s)
  case Nil
  then show ?case by simp
next
  case (Cons a as)
  have "cur_options (run (step a s) as) = latest_options (cur_options (step a s)) as"
    using Cons.prems by (intro Cons.IH) (rule listeners_ok_step)
  then show ?case
    using cur_options_step [OF Cons.prems, of a] by (cases a) simp_all
qed

lemma cur_options_hoverTooltip: "cur_options (hoverTooltip el opts) = opts"
  by (simp add: cur_options_def hoverTooltip_def)

text \<open>
  C3, as the claim states it, fails: attach with the body component \<open>R1\<close>, call
  \<open>update\<close> with \<open>R2\<close> and other props while hidden, then enter. The instance
  is mounted with \<open>R2\<close> and the props of the update, not with those of the attach.
\<close>

theorem mount_after_update_counterexample:
  "length (components (run (hoverTooltip example_element example_options)
                           [Update example_update, Dispatch ''mouseover''])) = 1
   \<and> tooltipBodyComponent (props (components
       (run (hoverTooltip example_element example_options)
            [Update example_update, Dispatch ''mouseover'']) ! 0))
       \<noteq> tooltipBodyComponent example_options
   \<and> tooltipBodyProps (props (components
       (run (hoverTooltip example_element example_options)
            [Update example_update, Dispatch ''mouseover'']) ! 0))
       \<noteq> tooltipBodyProps example_options
   \<and> tooltipBodyComponent (props (components
       (run (hoverTooltip example_element example_options)
            [Update example_update, Dispatch ''mouseover'']) ! 0)) = Some ''R2''
   \<and> tooltipBodyComponent example_options = Some ''R1''
   \<and> tooltipBodyProps (props (components
       (run (hoverTooltip example_element example_options)
            [Update example_update, Dispatch ''mouseover'']) ! 0)) = Some [(''x'', 2)]
   \<and> tooltipBodyProps example_options = Some [(''x'', 1)]"
  by (simp add: hoverTooltip_def addEventListener_def update_unfold dispatchEvent_def
        handlers_for_def invoke_def mouseOver_unfold example_options_def example_update_def)

text \<open>
  C3, amended. The body component and the body props passed to the renderer at a mount
  are those of the last \<open>update\<close> call before the mount, or those of the attach when
  no \<open>update\<close> call came before it.
\<close>

theorem mount_uses_latest_options:
  assumes "s = run (hoverTooltip el opts) as"
    and "length (components s) < length (components (step a s))"
  shows "components (step a s) = components s @ [last (components (step a s))]
       \<and> tooltipBodyComponent (props (last (components (step a s))))
           = tooltipBodyComponent (latest_options opts as)
       \<and> tooltipBodyProps (props (last (components (step a s))))
           = tooltipBodyProps (latest_options opts as)"
proof -
  have ok: "listeners_ok s"
    using assms(1) by (simp add: listeners_ok_run listeners_ok_hoverTooltip)
  have m: "tooltipComponent s = None" "step a s = mouseOver s"
    using mount_step [OF ok assms(2)] by simp_all
  have "latest_options opts as = cur_options s"
    using cur_options_run [OF listeners_ok_hoverTooltip, of el opts as] assms(1)
    by (simp add: cur_options_hoverTooltip)
  then have "tooltipBodyComponent (latest_options opts as) = curTooltipBodyComponent s"
    and "tooltipBodyProps (latest_options opts as) = curTooltipBodyProps s"
    by (simp_all add: cur_options_def)
  then show ?thesis
    using m by (simp add: mouseOver_unfold)
qed

theorem mount_uses_latest_options_witness:
  "length (components (run (hoverTooltip example_element example_options)
                           [Update example_update]))
     < length (components (step (Dispatch ''mouseover'')
                              (run (hoverTooltip example_element example_options)
                                   [Update example_update])))
   \<and> tooltipBodyComponent (props (last (components (step (Dispatch ''mouseover'')
         (run (hoverTooltip example_element example_options) [Update example_update])))))
       = Some ''R2''
   \<and> tooltipBodyProps (props (last (components (step (Dispatch ''mouseover'')
         (run (hoverTooltip example_element example_options) [Update example_update])))))
       = Some [(''x'', 2)]"
proof -
  have g: "length (components (run (hoverTooltip example_element example_options)
                                 [Update example_update]))
           < length (components (step (Dispatch ''mouseover'')
                                   (run (hoverTooltip example_element example_options)
                                        [Update example_update])))"
    by (simp add: hoverTooltip_def addEventListener_def update_unfold dispatchEvent_def
          handlers_for_def invoke_def mouseOver_unfold)
  show ?thesis
    using g mount_uses_latest_options [OF refl g]
    by (simp add: example_update_def)
qed

text \<open>
  C4. While an instance is live, \<open>update\<close> keeps the handle and creates and destroys
  nothing: the store changes only at the live instance, and of that instance only the
  text label, which becomes the new label. Body component, body props, anchor and mount
  parent of the live instance stay as they were mounted.
\<close>

theorem update_patches_label_only:
  assumes "s = run (hoverTooltip el opts) as"
    and "tooltipComponent s = Some i"
  shows "tooltipComponent (update n s) = Some i
       \<and> i < length (components s)
       \<and> components (update n s)
           = (components s)[i := (components s ! i)
                \<lparr>props := (props (components s ! i))\<lparr>tooltipText := tooltipText n\<rparr>\<rparr>]
       \<and> tooltipText (props (components (update n s) ! i)) = tooltipText n
       \<and> tooltipBodyComponent (props (components (update n s) ! i))
           = tooltipBodyComponent (props (components s ! i))
       \<and> tooltipBodyProps (props (components (update n s) ! i))
           = tooltipBodyProps (props (components s ! i))
       \<and> x (props (components (update n s) ! i)) = x (props (components s ! i))
       \<and> y (props (components (update n s) ! i)) = y (props (components s ! i))
       \<and> target (components (update n s) ! i) = target (components s ! i)
       \<and> destroyCalls (components (update n s) ! i) = 0
       \<and> live_instances s = [i]
       \<and> live_instances (update n s) = [i]"
proof -
  have c: "consistent s"
    using assms(1) reachable_ok [of el opts as] by simp
  then have i: "i < length (components s)" and d: "destroyCalls (components s ! i) = 0"
    using assms(2) by (auto simp: consistent_def)
  have u: "components (update n s)
           = (components s)[i := (components s ! i)
                \<lparr>props := (props (components s ! i))\<lparr>tooltipText := tooltipText n\<rparr>\<rparr>]"
    using assms(2) i by (simp add: update_unfold component_set_def)
  have h: "tooltipComponent (update n s) = Some i"
    using assms(2) by (simp add: tooltipComponent_update)
  have l: "live_instances s = [i]"
    using live_instances_consistent [OF c] assms(2) by simp
  have "live_instances (update n s) = [i]"
    using live_instances_consistent [OF consistent_update [OF c], of n] h by simp
  with u h i d l show ?thesis by simp
qed

theorem update_patches_label_only_witness:
  "tooltipComponent (run (hoverTooltip example_element example_options)
                         [Dispatch ''mouseover'']) = Some 0
   \<and> tooltipComponent (update example_update
         (run (hoverTooltip example_element example_options) [Dispatch ''mouseover''])) = Some 0
   \<and> tooltipText (props (components (update example_update
         (run (hoverTooltip example_element example_options) [Dispatch ''mouseover''])) ! 0))
       = Some ''B''
   \<and> tooltipBodyComponent (props (components (update example_update
         (run (hoverTooltip example_element example_options) [Dispatch ''mouseover''])) ! 0))
       = Some ''R1''
   \<and> tooltipBodyProps (props (components (update example_update
         (run (hoverTooltip example_element example_options) [Dispatch ''mouseover''])) ! 0))
       = Some [(''x'', 1)]"
proof -
  have h: "tooltipComponent (run (hoverTooltip example_element example_options)
                                 [Dispatch ''mouseover'']) = Some 0"
    by (simp add: hoverTooltip_def addEventListener_def dispatchEvent_def
          handlers_for_def invoke_def mouseOver_unfold)
  have c: "props (components (run (hoverTooltip example_element example_options)
                                  [Dispatch ''mouseover'']) ! 0)
           = \<lparr>tooltipText = Some ''A'', tooltipBodyComponent = Some ''R1'',
              tooltipBodyProps = Some [(''x'', 1)], x = 120, y = 70\<rparr>"
    by (simp add: hoverTooltip_def addEventListener_def dispatchEvent_def
          handlers_for_def invoke_def mouseOver_unfold example_options_def
          example_element_def left_def bottom_def)
  show ?thesis
    using h c update_patches_label_only [OF refl h, of example_update]
    by (simp add: example_update_def)
qed

text \<open>
  C5. Whenever a step of a run mounts an instance, and the bounding rectangle of the
  target has a height that is not negative (every bounding rectangle has), the anchor
  passed to the renderer is \<open>(left + width / 2, top + height)\<close> of that rectangle.
  For the rectangle \<open>{left: 100, top: 50, width: 40, height: 20}\<close> that is
  \<open>(120, 70)\<close>.
\<close>

theorem mount_anchor:
  assumes "s = run (hoverTooltip el opts) as"
    and "length (components s) < length (components (step a s))"
    and "0 \<le> height (boundingClientRect (element s))"
  shows "components (step a s) = components s @ [last (components (step a s))]
       \<and> x (props (last (components (step a s))))
           = left (boundingClientRect (element s)) + width (boundingClientRect (element s)) / 2
       \<and> y (props (last (components (step a s))))
           = top_edge (boundingClientRect (element s)) + height (boundingClientRect (element s))"
proof -
  have ok: "listeners_ok s"
    using assms(1) by (simp add: listeners_ok_run listeners_ok_hoverTooltip)
  have m: "tooltipComponent s = None" "step a s = mouseOver s"
    using mount_step [OF ok assms(2)] by simp_all
  have "bottom (boundingClientRect (element s))
        = top_edge (boundingClientRect (element s)) + height (boundingClientRect (element s))"
    using assms(3) by (simp add: bottom_def top_edge_def)
  then show ?thesis
    using m by (simp add: mouseOver_unfold)
qed

theorem mount_anchor_witness:
  "left (boundingClientRect example_element) = 100
   \<and> top_edge (boundingClientRect example_element) = 50
   \<and> width (boundingClientRect example_element) = 40
   \<and> height (boundingClientRect example_element) = 20
   \<and> length (components (run (hoverTooltip example_element example_options) []))
       < length (components (step (Dispatch ''mouseover'')
                                (run (hoverTooltip example_element example_options) [])))
   \<and> x (props (last (components (step (Dispatch ''mouseover'')
         (run (hoverTooltip example_element example_options) []))))) = 120
   \<and> y (props (last (components (step (Dispatch ''mouseover'')
         (run (hoverTooltip example_element example_options) []))))) = 70"
proof -
  have g: "length (components (run (hoverTooltip example_element example_options) []))
           < length (components (step (Dispatch ''mouseover'')
                                   (run (hoverTooltip example_element example_options) [])))"
    by (simp add: hoverTooltip_def addEventListener_def dispatchEvent_def
          handlers_for_def invoke_def mouseOver_unfold)
  have e: "element (run (hoverTooltip example_element example_options) []) = example_element"
    by (simp add: hoverTooltip_def)
  have r: "left (boundingClientRect example_element) = 100"
    "top_edge (boundingClientRect example_element) = 50"
    "width (boundingClientRect example_element) = 40"
    "height (boundingClientRect example_element) = 20"
    by (simp_all add: example_element_def left_def top_edge_def)
  have p: "0 \<le> height (boundingClientRect
                 (element (run (hoverTooltip example_element example_options) [])))"
    unfolding e by (simp add: r)
  show ?thesis
    using g r mount_anchor [OF refl g p] unfolding e by simp
qed

text \<open>
  C9. When the bounding rectangle of the target is all zero, as it is for an element
  that is not in the document, and no instance is live, \<open>mouseOver\<close> mounts an
  instance all the same, anchored at \<open>(0, 0)\<close>. The function has no failing branch.
\<close>

theorem mouseOver_degenerate_rect:
  assumes "tooltipComponent s = None"
    and "left (boundingClientRect (element s)) = 0"
    and "top_edge (boundingClientRect (element s)) = 0"
    and "width (boundingClientRect (element s)) = 0"
    and "height (boundingClientRect (element s)) = 0"
  shows "tooltipComponent (mouseOver s) = Some (length (components s))
       \<and> length (components (mouseOver s)) = Suc (length (components s))
       \<and> destroyCalls (components (mouseOver s) ! length (components s)) = 0
       \<and> x (props (components (mouseOver s) ! length (components s))) = 0
       \<and> y (props (components (mouseOver s) ! length (components s))) = 0"
proof -
  have "bottom (boundingClientRect (element s)) = 0"
    using assms(3,5) by (simp add: bottom_def top_edge_def)
  then show ?thesis
    using assms(1,2,4) by (simp add: mouseOver_unfold)
qed

theorem mouseOver_degenerate_rect_witness:
  "tooltipComponent (hoverTooltip detached_element example_options) = None
   \<and> left (boundingClientRect (element (hoverTooltip detached_element example_options))) = 0
   \<and> top_edge (boundingClientRect (element (hoverTooltip detached_element example_options))) = 0
   \<and> width (boundingClientRect (element (hoverTooltip detached_element example_options))) = 0
   \<and> height (boundingClientRect (element (hoverTooltip detached_element example_options))) = 0
   \<and> tooltipComponent (mouseOver (hoverTooltip detached_element example_options)) = Some 0
   \<and> length (components (mouseOver (hoverTooltip detached_element example_options))) = 1
   \<and> x (props (components (mouseOver (hoverTooltip detached_element example_options)) ! 0)) = 0
   \<and> y (props (components (mouseOver (hoverTooltip detached_element example_options)) ! 0)) = 0"
proof -
  have h: "tooltipComponent (hoverTooltip detached_element example_options) = None"
    by (simp add: hoverTooltip_def)
  have r: "left (boundingClientRect (element (hoverTooltip detached_element example_options))) = 0"
    "top_edge (boundingClientRect (element (hoverTooltip detached_element example_options))) = 0"
    "width (boundingClientRect (element (hoverTooltip detached_element example_options))) = 0"
    "height (boundingClientRect (element (hoverTooltip detached_element example_options))) = 0"
    by (simp_all add: hoverTooltip_def detached_element_def left_def top_edge_def)
  have n: "components (hoverTooltip detached_element example_options) = []"
    by (simp add: hoverTooltip_def)
  show ?thesis
    using h r mouseOver_degenerate_rect [OF h r] by (simp add: n)
qed

subsection \<open>Enter while visible\<close>

lemma detached_hidden_step:
  assumes "listeners_ok s" and "detached_hidden s"
  shows "detached_hidden (step a s)"
proof (cases a)
  case (Dispatch ty)
  then show ?thesis
    using assms(2) by (auto simp: dispatchEvent_cases [OF assms(1)] detached_hidden_def)
next
  case (Update n)
  then show ?thesis
    using assms(2) by (simp add: detached_hidden_def tooltipComponent_update)
next
  case Destroy
  then show ?thesis by (simp add: detached_hidden_def tooltipComponent_destroy)
next
  case (Layout r)
  then show ?thesis using assms(2) by (simp add: detached_hidden_def)
qed

lemma detached_hidden_run:
  "listeners_ok s \<Longrightarrow> detached_hidden s \<Longrightarrow> detached_hidden (run s as)"
  by (induction as arbitrary: s) (simp_all add: detached_hidden_step listeners_ok_step)

lemma run_replicate_fixed: "step a s = s \<Longrightarrow> run s (replicate k a) = s"
  by (induction k) simp_all

text \<open>
  C7. While an instance is live, an enter event is delivered to \<open>mouseOver\<close> and
  changes nothing: the handle, the store of instances (so also the anchor of the live
  instance) and everything else stay as they are, however often the event repeats.
\<close>

theorem enter_while_live_noop:
  assumes "s = run (hoverTooltip el opts) as"
    and "tooltipComponent s \<noteq> None"
  shows "mouseOver s = s
       \<and> observe (Dispatch ''mouseover'') s = [Enter]
       \<and> step (Dispatch ''mouseover'') s = s
       \<and> run s (replicate k (Dispatch ''mouseover'')) = s"
proof -
  have ok: "listeners_ok s"
    using assms(1) by (simp add: listeners_ok_run listeners_ok_hoverTooltip)
  have "detached_hidden (hoverTooltip el opts)"
    by (simp add: detached_hidden_def listeners_hoverTooltip)
  then have "detached_hidden s"
    using assms(1) by (simp add: detached_hidden_run listeners_ok_hoverTooltip)
  then have l: "listeners s \<noteq> []"
    using assms(2) by (simp add: detached_hidden_def)
  have m: "mouseOver s = s"
    using assms(2) by (simp add: mouseOver_unfold)
  have st: "step (Dispatch ''mouseover'') s = s"
    using l m by (simp add: dispatchEvent_cases [OF ok])
  have "observe (Dispatch ''mouseover'') s = [Enter]"
    using l by (simp only: observe_Dispatch_cases [OF ok]) simp
  with m st run_replicate_fixed [OF st, of k] show ?thesis by simp
qed

theorem enter_while_live_noop_witness:
  "tooltipComponent (run (hoverTooltip example_element example_options)
                         [Dispatch ''mouseover'']) \<noteq> None
   \<and> mouseOver (run (hoverTooltip example_element example_options) [Dispatch ''mouseover''])
       = run (hoverTooltip example_element example_options) [Dispatch ''mouseover'']
   \<and> step (Dispatch ''mouseover'')
           (run (hoverTooltip example_element example_options) [Dispatch ''mouseover''])
       = run (hoverTooltip example_element example_options) [Dispatch ''mouseover'']
   \<and> length (components (run (hoverTooltip example_element example_options)
         ([Dispatch ''mouseover''] @ replicate 3 (Dispatch ''mouseover'')))) = 1"
proof -
  have h: "tooltipComponent (run (hoverTooltip example_element example_options)
                                 [Dispatch ''mouseover'']) \<noteq> None"
    by (simp add: hoverTooltip_def addEventListener_def dispatchEvent_def
          handlers_for_def invoke_def mouseOver_unfold)
  have c: "length (components (run (hoverTooltip example_element example_options)
                                   [Dispatch ''mouseover''])) = 1"
    by (simp add: hoverTooltip_def addEventListener_def dispatchEvent_def
          handlers_for_def invoke_def mouseOver_unfold)
  show ?thesis
    using h c enter_while_live_noop [OF refl h, of 3]
    by (simp only: run_append) simp
qed

subsection \<open>Detach\<close>

lemma removeEventListener_absent: "(ty, cb) \<notin> set (removeEventListener ty cb ls)"
  by (simp add: removeEventListener_def)

lemma removeEventListener_keeps_absent:
  "l \<notin> set ls \<Longrightarrow> l \<notin> set (removeEventListener ty cb ls)"
  by (simp add: removeEventListener_def)

lemma destroy_twice: "destroy (destroy s) = destroy s"
proof -
  have "removeEventListener ''mouseleave'' MouseLeave
          (removeEventListener ''mouseover'' MouseOver
            (removeEventListener ''mouseleave'' MouseLeave
              (removeEventListener ''mouseover'' MouseOver (listeners s))))
        = removeEventListener ''mouseleave'' MouseLeave
            (removeEventListener ''mouseover'' MouseOver (listeners s))"
    by (auto simp: removeEventListener_def intro!: filter_cong)
  then show ?thesis
    by (simp add: destroy_unfold mouseLeave_unfold)
qed

lemma destroyed_count_mouseLeave:
  assumes "consistent s"
  shows "destroyed_count (mouseLeave s) = destroyed_count s + length (live_instances s)"
proof (cases "tooltipComponent s")
  case None
  then show ?thesis
    using live_instances_consistent [OF assms]
    by (simp add: mouseLeave_unfold destroyed_count_def)
next
  case (Some i)
  then have i: "i < length (components s)" and d: "destroyCalls (components s ! i) = 0"
    using assms by (auto simp: consistent_def)
  have "map destroyCalls (components (mouseLeave s)) = (map destroyCalls (components s))[i := 1]"
    using Some i d by (simp add: mouseLeave_unfold component_destroy_def map_update)
  then have "destroyed_count (mouseLeave s)
             = sum_list (map destroyCalls (components s)) + 1 - map destroyCalls (components s) ! i"
    using i by (simp add: destroyed_count_def sum_list_update)
  then show ?thesis
    using Some i d live_instances_consistent [OF assms]
    by (simp add: destroyed_count_def)
qed

text \<open>
  C6. In every state, a second \<open>destroy\<close> changes nothing: after the first call the
  handle is cleared and neither listener is registered, the second call finds no instance
  to destroy (the store is what one \<open>mouseLeave\<close> leaves) and removes no listener.
  After any run, two calls of \<open>destroy\<close> leave no live instance, add one
  \<open>$destroy\<close> call for the instance that was live, and no instance was ever
  destroyed twice.
\<close>

theorem destroy_idempotent:
  "destroy (destroy s) = destroy s
   \<and> tooltipComponent (destroy s) = None
   \<and> (''mouseover'', MouseOver) \<notin> set (listeners (destroy s))
   \<and> (''mouseleave'', MouseLeave) \<notin> set (listeners (destroy s))
   \<and> components (destroy (destroy s)) = components (mouseLeave s)
   \<and> live_instances (destroy (destroy (run (hoverTooltip el opts) as))) = []
   \<and> destroyed_count (destroy (destroy (run (hoverTooltip el opts) as)))
       = destroyed_count (run (hoverTooltip el opts) as)
         + length (live_instances (run (hoverTooltip el opts) as))
   \<and> (\<forall>c \<in> set (components (destroy (destroy (run (hoverTooltip el opts) as)))).
         destroyCalls c \<le> 1)"
proof -
  let ?r = "run (hoverTooltip el opts) as"
  have c: "consistent ?r"
    using reachable_ok [of el opts as] by simp
  have cd: "consistent (destroy ?r)"
    using c by (rule consistent_destroy)
  have 1: "(''mouseover'', MouseOver) \<notin> set (listeners (destroy s))"
    by (simp add: destroy_unfold removeEventListener_absent removeEventListener_keeps_absent)
  have 2: "(''mouseleave'', MouseLeave) \<notin> set (listeners (destroy s))"
    by (simp add: destroy_unfold removeEventListener_absent)
  have 3: "components (destroy (destroy s)) = components (mouseLeave s)"
    by (simp add: destroy_twice) (simp add: destroy_unfold)
  have 4: "live_instances (destroy (destroy ?r)) = []"
    using live_instances_consistent [OF cd]
    by (simp add: destroy_twice tooltipComponent_destroy)
  have "destroyed_count (destroy ?r) = destroyed_count (mouseLeave ?r)"
    by (simp add: destroy_unfold destroyed_count_def)
  then have 5: "destroyed_count (destroy (destroy ?r))
                = destroyed_count ?r + length (live_instances ?r)"
    using destroyed_count_mouseLeave [OF c] by (simp add: destroy_twice)
  have 6: "\<forall>c \<in> set (components (destroy (destroy ?r))). destroyCalls c \<le> 1"
    using cd by (auto simp: destroy_twice consistent_def in_set_conv_nth)
  show ?thesis
    using 1 2 3 4 5 6 by (simp add: destroy_twice tooltipComponent_destroy)
qed

theorem destroy_idempotent_witness:
  "live_instances (run (hoverTooltip example_element example_options)
                       [Dispatch ''mouseover'']) = [0]
   \<and> destroy (destroy (run (hoverTooltip example_element example_options)
                              [Dispatch ''mouseover'']))
       = destroy (run (hoverTooltip example_element example_options) [Dispatch ''mouseover''])
   \<and> listeners (destroy (run (hoverTooltip example_element example_options)
                               [Dispatch ''mouseover''])) = []
   \<and> destroyed_count (destroy (destroy (run (hoverTooltip example_element example_options)
                                              [Dispatch ''mouseover'']))) = 1
   \<and> destroyCalls (components (destroy (destroy
         (run (hoverTooltip example_element example_options) [Dispatch ''mouseover'']))) ! 0) = 1"
proof -
  let ?r = "run (hoverTooltip example_element example_options) [Dispatch ''mouseover'']"
  have o: "?r = mouseOver (hoverTooltip example_element example_options)"
    by (simp add: dispatch_mouseover_attached listeners_hoverTooltip)
  have l: "live_instances ?r = [0]"
    unfolding o by (simp add: live_instances_def mouseOver_unfold hoverTooltip_def)
  have d: "destroyed_count ?r = 0"
    unfolding o by (simp add: destroyed_count_def mouseOver_unfold hoverTooltip_def)
  have n: "listeners (destroy ?r) = []"
    unfolding o
    by (simp add: destroy_unfold mouseOver_unfold hoverTooltip_def addEventListener_def
          removeEventListener_def)
  have e: "destroyCalls (components (destroy (destroy ?r)) ! 0) = 1"
    unfolding o
    by (simp add: destroy_twice)
       (simp add: destroy_unfold mouseLeave_unfold mouseOver_unfold hoverTooltip_def
          component_destroy_def)
  note t = destroy_idempotent [of ?r example_element example_options "[Dispatch ''mouseover'']"]
  have a: "destroy (destroy ?r) = destroy ?r"
    using t by blast
  have "destroyed_count (destroy (destroy ?r)) = destroyed_count ?r + length (live_instances ?r)"
    using t by blast
  then have b: "destroyed_count (destroy (destroy ?r)) = 1"
    by (simp only: l d) simp
  show ?thesis
    using l n e a b by blast
qed

subsection \<open>Detach before any enter\<close>

lemma hidden_empty_step:
  assumes "listeners_ok s"
    and "components s = []" and "tooltipComponent s = None"
    and "a \<noteq> Dispatch ''mouseover''"
  shows "components (step a s) = [] \<and> tooltipComponent (step a s) = None"
proof (cases a)
  case (Dispatch ty)
  with assms(4) have "ty \<noteq> ''mouseover''" by simp
  then show ?thesis
    using Dispatch assms(2,3)
    by (simp add: dispatchEvent_cases [OF assms(1)] mouseLeave_unfold)
next
  case (Update n)
  then show ?thesis using assms(2,3) by (simp add: update_unfold)
next
  case Destroy
  then show ?thesis using assms(2,3) by (simp add: destroy_unfold mouseLeave_unfold)
next
  case (Layout r)
  then show ?thesis using assms(2,3) by simp
qed

lemma hidden_empty_run:
  "listeners_ok s \<Longrightarrow> components s = [] \<Longrightarrow> tooltipComponent s = None \<Longrightarrow>
   Dispatch ''mouseover'' \<notin> set as \<Longrightarrow>
   components (run s as) = [] \<and> tooltipComponent (run s as) = None"
proof (induction as arbitrary: s)
  case Nil
  then show ?case by simp
next
  case (Cons a as)
  have a: "a \<noteq> Dispatch ''mouseover''" and r: "Dispatch ''mouseover'' \<notin> set as"
    using Cons.prems(4) by auto
  have "components (step a s) = [] \<and> tooltipComponent (step a s) = None"
    using Cons.prems(1,2,3) a by (rule hidden_empty_step)
  then have "components (run (step a s) as) = [] \<and> tooltipComponent (run (step a s) as) = None"
    using Cons.prems(1) r by (intro Cons.IH) (simp_all add: listeners_ok_step)
  then show ?case by simp
qed

lemma dispatch_unlistened: "listeners s = [] \<Longrightarrow> dispatchEvent ty s = s"
  by (simp add: dispatchEvent_def handlers_for_def)

lemma run_unlistened: "listeners s = [] \<Longrightarrow> run s (map Dispatch tys) = s"
  by (induction tys) (simp_all add: dispatch_unlistened)

lemma processed_unlistened: "listeners s = [] \<Longrightarrow> processed s (map Dispatch tys) = []"
  by (induction tys) (simp_all add: dispatch_unlistened handlers_for_def)

text \<open>
  C8. Attaching creates no instance and sets no handle. When \<open>destroy\<close> is called
  after an attach with no enter event in between, no instance exists, and events
  delivered to the element afterwards, enter events among them, are not processed and
  leave the state as \<open>destroy\<close> left it: no instance is ever created.
\<close>

theorem detach_before_hover:
  assumes "Dispatch ''mouseover'' \<notin> set pre"
  shows "components (hoverTooltip el opts) = []
       \<and> tooltipComponent (hoverTooltip el opts) = None
       \<and> components (run (hoverTooltip el opts) (pre @ [Destroy])) = []
       \<and> run (hoverTooltip el opts) (pre @ [Destroy] @ map Dispatch tys)
           = run (hoverTooltip el opts) (pre @ [Destroy])
       \<and> processed (run (hoverTooltip el opts) (pre @ [Destroy])) (map Dispatch tys) = []
       \<and> components (run (hoverTooltip el opts) (pre @ [Destroy] @ map Dispatch tys)) = []"
proof -
  let ?i = "hoverTooltip el opts"
  have i: "components ?i = []" "tooltipComponent ?i = None"
    by (simp_all add: hoverTooltip_def)
  have "Dispatch ''mouseover'' \<notin> set (pre @ [Destroy])"
    using assms by simp
  then have e: "components (run ?i (pre @ [Destroy])) = []"
    using hidden_empty_run [OF listeners_ok_hoverTooltip i] by blast
  have "listeners (run ?i (pre @ [Destroy])) = listeners (destroy (run ?i pre))"
    by (simp add: run_append)
  then have l: "listeners (run ?i (pre @ [Destroy])) = []"
    using listeners_ok_destroy [OF listeners_ok_run [OF listeners_ok_hoverTooltip], of el opts pre]
    by simp
  have r: "run ?i (pre @ [Destroy] @ map Dispatch tys) = run ?i (pre @ [Destroy])"
    using run_unlistened [OF l, of tys] run_append [of ?i "pre @ [Destroy]" "map Dispatch tys"]
    by simp
  show ?thesis
    using i e r processed_unlistened [OF l, of tys] by simp
qed

theorem detach_before_hover_witness:
  "Dispatch ''mouseover'' \<notin> set [Update example_update, Dispatch ''mouseleave'']
   \<and> run (hoverTooltip example_element example_options)
         ([Update example_update, Dispatch ''mouseleave''] @ [Destroy]
            @ map Dispatch [''mouseover'', ''mouseleave'', ''mouseover''])
     = run (hoverTooltip example_element example_options)
         ([Update example_update, Dispatch ''mouseleave''] @ [Destroy])
   \<and> components (run (hoverTooltip example_element example_options)
         ([Update example_update, Dispatch ''mouseleave''] @ [Destroy]
            @ map Dispatch [''mouseover'', ''mouseleave'', ''mouseover''])) = []"
proof -
  have p: "Dispatch ''mouseover'' \<notin> set [Update example_update, Dispatch ''mouseleave'']"
    by simp
  show ?thesis
    using p detach_before_hover [OF p, of example_element example_options
                                   "[''mouseover'', ''mouseleave'', ''mouseover'']"]
    by blast
qed

subsection \<open>The mount parent\<close>

lemma target_component_set: "map target (component_set i t cs) = map target cs"
  by (simp add: component_set_def map_update list_update_same_conv)

lemma target_component_destroy: "map target (component_destroy i cs) = map target cs"
  by (simp add: component_destroy_def map_update list_update_same_conv)

lemma targets_step:
  assumes "listeners_ok s" and "set (map target (components s)) \<subseteq> {DocumentBody}"
  shows "set (map target (components (step a s))) \<subseteq> {DocumentBody}"
proof (cases a)
  case (Dispatch ty)
  have "map target (components (mouseLeave s)) = map target (components s)"
    by (simp add: mouseLeave_unfold target_component_destroy split: option.splits)
  then have "set (map target (components (mouseLeave s))) \<subseteq> {DocumentBody}"
    using assms(2) by (simp only:)
  moreover have "set (map target (components (mouseOver s))) \<subseteq> {DocumentBody}"
    using assms(2) by (simp add: mouseOver_unfold)
  ultimately show ?thesis
    using Dispatch assms(2) by (simp add: dispatchEvent_cases [OF assms(1)])
next
  case (Update n)
  have "map target (components (update n s)) = map target (components s)"
    by (simp add: update_unfold target_component_set split: option.splits)
  then have "set (map target (components (update n s))) \<subseteq> {DocumentBody}"
    using assms(2) by (simp only:)
  with Update show ?thesis by simp
next
  case Destroy
  have "map target (components (destroy s)) = map target (components s)"
    by (simp add: destroy_unfold mouseLeave_unfold target_component_destroy split: option.splits)
  then have "set (map target (components (destroy s))) \<subseteq> {DocumentBody}"
    using assms(2) by (simp only:)
  with Destroy show ?thesis by simp
next
  case (Layout r)
  with assms(2) show ?thesis by simp
qed

lemma targets_run:
  "listeners_ok s \<Longrightarrow> set (map target (components s)) \<subseteq> {DocumentBody} \<Longrightarrow>
   set (map target (components (run s as))) \<subseteq> {DocumentBody}"
proof (induction as arbitrary: s)
  case Nil
  then show ?case by simp
next
  case (Cons a as)
  have "set (map target (components (run (step a s) as))) \<subseteq> {DocumentBody}"
    using Cons.prems by (intro Cons.IH listeners_ok_step targets_step)
  then show ?case by simp
qed

text \<open>
  C10. After every run on an attached action, whatever the target element is, every
  instance that was created has \<open>document.body\<close> as its mount parent.
\<close>

theorem mount_parent_document_body:
  "\<forall>c \<in> set (components (run (hoverTooltip el opts) as)). target c = DocumentBody"
proof -
  have "set (map target (components (hoverTooltip el opts))) \<subseteq> {DocumentBody}"
    by (simp add: hoverTooltip_def)
  then have "set (map target (components (run (hoverTooltip el opts) as))) \<subseteq> {DocumentBody}"
    using listeners_ok_hoverTooltip by (intro targets_run)
  then show ?thesis by auto
qed

theorem mount_parent_document_body_witness:
  "node_of example_element = OtherNode 7
   \<and> length (components (run (hoverTooltip example_element example_options)
                               [Dispatch ''mouseover''])) = 1
   \<and> target (components (run (hoverTooltip example_element example_options)
                               [Dispatch ''mouseover'']) ! 0) = DocumentBody"
proof -
  let ?r = "run (hoverTooltip example_element example_options) [Dispatch ''mouseover'']"
  have o: "?r = mouseOver (hoverTooltip example_element example_options)"
    by (simp add: dispatch_mouseover_attached listeners_hoverTooltip)
  have l: "length (components ?r) = 1"
    unfolding o by (simp add: mouseOver_unfold hoverTooltip_def)
  then have "components ?r ! 0 \<in> set (components ?r)"
    by (simp only: nth_mem zero_less_one)
  then have "target (components ?r ! 0) = DocumentBody"
    using mount_parent_document_body [of example_element example_options "[Dispatch ''mouseover'']"]
    by blast
  with l show ?thesis by (simp add: example_element_def)
qed

end
